theory Spec2Isabelle
  imports Complex_Main "HOL-Library.Multiset"
begin

section \<open>Values of the host language\<close>

text \<open>
  An optional property of an object holds a value, holds \<open>null\<close>, or is absent
  (reading it gives \<open>undefined\<close>). The three cases are kept apart: a serialised payload
  keeps a key whose value is \<open>null\<close> and drops a key whose value is \<open>undefined\<close>.
\<close>

datatype 'a js_opt = Undefined | Null | Val 'a

text \<open>Truthiness of a string and of a number, as the operator \<open>||\<close> tests it.\<close>

definition truthy_string :: "string \<Rightarrow> bool" where
  "truthy_string s = (s \<noteq> [])"

definition truthy_number :: "nat \<Rightarrow> bool" where
  "truthy_number n = (n \<noteq> 0)"

text \<open>\<open>x || ''\<close> on a string.\<close>

definition or_empty :: "string \<Rightarrow> string" where
  "or_empty s = (if truthy_string s then s else [])"

text \<open>\<open>x || null\<close> on an optional property: the left operand when it is truthy, else \<open>null\<close>.\<close>

definition or_null :: "('a \<Rightarrow> bool) \<Rightarrow> 'a js_opt \<Rightarrow> 'a js_opt" where
  "or_null truthy x =
     (case x of
        Val v \<Rightarrow> if truthy v then Val v else Null
      | Null \<Rightarrow> Null
      | Undefined \<Rightarrow> Null)"

text \<open>
  \<open>parseFloat(x.toString())\<close> on a finite number: \<open>toString\<close> prints the shortest
  decimal that reads back as the same number, and \<open>parseFloat\<close> reads it back. Numbers are
  modelled as rationals, so the composition is the identity.
\<close>

definition parseFloat_toString :: "rat \<Rightarrow> rat" where
  "parseFloat_toString x = x"

text \<open>
  A value caught by \<open>catch\<close>: an instance of \<open>Error\<close> with its message, or anything
  else. A computation that may raise returns a sum, \<open>Inl\<close> the raised value.
\<close>

datatype thrown = ErrorObj string | NonError

type_synonym 'a js = "thrown + 'a"

section \<open>Data model\<close>

record Location =
  lat :: rat
  lng :: rat
  address :: "string option"

text \<open>
  Modelled from the spec: the type \<open>Booking\<close> of \<open>@/types/booking\<close>, which
  \<open>bookings.ts\<close> imports. Its fields are those the two mappings read and write; tier and
  status are strings at run time; \<open>taxiId\<close> and \<open>eta\<close> are the optional ones. The fields
  \<open>id\<close>, \<open>distance\<close>, \<open>fare\<close>, \<open>status\<close>, \<open>eta\<close> and \<open>timestamp\<close> carry the suffix
  \<open>_b\<close>, since the row has columns of the same names.
\<close>

record Booking =
  id_b :: string
  startLocation :: Location
  endLocation :: Location
  tier :: string
  distance_b :: rat
  fare_b :: rat
  status_b :: string
  taxiId :: "string js_opt"
  eta_b :: "nat js_opt"
  timestamp_b :: int
  userName :: string
  userPhone :: string

text \<open>
  The row of table \<open>bookings\<close> as \<open>saveBooking\<close> builds it (interface
  \<open>BookingInsert\<close>); column \<open>id\<close> is \<open>id_r\<close> here.
\<close>

record Row =
  id_r :: string
  user_name :: string
  user_phone :: string
  pickup_location :: Location
  drop_location :: Location
  taxi_tier :: string
  distance :: rat
  fare :: rat
  status :: string
  taxi_id :: "string js_opt"
  eta :: "nat js_opt"
  timestamp :: int

text \<open>A row as the table holds it: the columns above and the server-assigned \<open>created_at\<close>.\<close>

record StoredRow = Row +
  created_at :: nat

section \<open>The two mappings\<close>

text \<open>The object \<open>bookingData\<close> of \<open>saveBooking\<close>.\<close>

definition mapToRow :: "Booking \<Rightarrow> Row" where
  "mapToRow booking =
     \<lparr> id_r = id_b booking,
       user_name = or_empty (userName booking),
       user_phone = or_empty (userPhone booking),
       pickup_location = startLocation booking,
       drop_location = endLocation booking,
       taxi_tier = tier booking,
       distance = parseFloat_toString (distance_b booking),
       fare = parseFloat_toString (fare_b booking),
       status = status_b booking,
       taxi_id = or_null truthy_string (taxiId booking),
       eta = or_null truthy_number (eta_b booking),
       timestamp = timestamp_b booking \<rparr>"

text \<open>
  The function mapped over the returned records by \<open>fetchUserBookings\<close> and
  \<open>fetchAllBookings\<close> (the same in both). It reads the twelve columns and ignores whatever
  else the record holds.
\<close>

definition mapFromRow :: "'a Row_scheme \<Rightarrow> Booking" where
  "mapFromRow record =
     \<lparr> id_b = id_r record,
       startLocation = pickup_location record,
       endLocation = drop_location record,
       tier = taxi_tier record,
       distance_b = distance record,
       fare_b = fare record,
       status_b = status record,
       taxiId = taxi_id record,
       eta_b = eta record,
       timestamp_b = timestamp record,
       userName = user_name record,
       userPhone = user_phone record \<rparr>"

section \<open>The remote store as the module sees it\<close>

text \<open>
  The requests the module builds on the shared client. A select carries what
  \<open>.from(t).select(c).eq(col, v).order(col, {ascending})\<close> and \<open>.limit(n)\<close> set; an
  insert the table and the rows; an update the table, the patch, and the equality filters.
\<close>

record select_query =
  from_table :: string
  columns :: string
  eq_filters :: "(string \<times> string) list"
  order_by :: "(string \<times> bool) option"
  limit_to :: "int option"

datatype request =
    Insert string "Row list"
  | Select select_query
  | Update string "(string \<times> string) list" "(string \<times> string) list"

text \<open>The error object of a response (only \<open>message\<close> is read) and the response.\<close>

record PostgrestError =
  message :: string

record response =
  data :: "StoredRow list option"
  error :: "PostgrestError option"

text \<open>
  The client \<open>supabase\<close> of \<open>./client\<close> is a parameter: awaiting a request either
  raises or gives a response, and may change the state of the remote side. Every operation
  takes the client as its first argument and the state of the remote side as its last. The
  calls of \<open>console.error\<close> have no part in what an operation returns and are left out.
\<close>

type_synonym 'st remote = "request \<Rightarrow> 'st \<Rightarrow> response js \<times> 'st"

section \<open>The four operations\<close>

record WriteResult =
  success :: bool
  error_w :: "string option"

record FetchResult =
  bookings :: "Booking list"
  error_f :: "string option"

text \<open>\<open>error instanceof Error ? error.message : 'Unknown error'\<close>\<close>

definition catch_message :: "thrown \<Rightarrow> string" where
  "catch_message e = (case e of ErrorObj m \<Rightarrow> m | NonError \<Rightarrow> ''Unknown error'')"

text \<open>\<open>try { body } catch (error) { return handler(error) }\<close>\<close>

definition try_catch :: "'a js \<times> 'st \<Rightarrow> (thrown \<Rightarrow> 'a) \<Rightarrow> 'a js \<times> 'st" where
  "try_catch body handler =
     (case body of
        (Inl e, s) \<Rightarrow> (Inr (handler e), s)
      | (Inr r, s) \<Rightarrow> (Inr r, s))"

text \<open>
  What \<open>saveBooking\<close> and \<open>updateBookingStatus\<close> do with the awaited response (the same
  in both): a raised value leaves the \<open>try\<close> block, an error is reported with its
  message, anything else is success.
\<close>

definition write_result :: "response js \<times> 'st \<Rightarrow> WriteResult js \<times> 'st" where
  "write_result answer =
     (case answer of
        (Inl e, s') \<Rightarrow> (Inl e, s')
      | (Inr resp, s') \<Rightarrow>
          (case error resp of
             Some err \<Rightarrow> (Inr \<lparr> success = False, error_w = Some (message err) \<rparr>, s')
           | None \<Rightarrow> (Inr \<lparr> success = True, error_w = None \<rparr>, s')))"

definition saveBooking_try :: "'st remote \<Rightarrow> Booking \<Rightarrow> 'st \<Rightarrow> WriteResult js \<times> 'st" where
  "saveBooking_try supabase booking s =
     (let bookingData = mapToRow booking in
      write_result (supabase (Insert ''bookings'' [bookingData]) s))"

definition saveBooking :: "'st remote \<Rightarrow> Booking \<Rightarrow> 'st \<Rightarrow> WriteResult js \<times> 'st" where
  "saveBooking supabase booking s =
     try_catch (saveBooking_try supabase booking s)
       (\<lambda>e. \<lparr> success = False, error_w = Some (catch_message e) \<rparr>)"

text \<open>
  What both fetch operations do with the awaited response: the error branch, then
  \<open>(data || []).map(...)\<close>.
\<close>

definition fetch_result :: "response js \<times> 'st \<Rightarrow> FetchResult js \<times> 'st" where
  "fetch_result answer =
     (case answer of
        (Inl e, s') \<Rightarrow> (Inl e, s')
      | (Inr resp, s') \<Rightarrow>
          (case error resp of
             Some err \<Rightarrow> (Inr \<lparr> bookings = [], error_f = Some (message err) \<rparr>, s')
           | None \<Rightarrow>
               (Inr \<lparr> bookings = map mapFromRow (case data resp of None \<Rightarrow> [] | Some rs \<Rightarrow> rs),
                      error_f = None \<rparr>, s')))"

text \<open>The parameter \<open>userPhone\<close> is \<open>phone\<close> here; \<open>status\<close> of \<open>updateBookingStatus\<close> is \<open>new_status\<close>.\<close>

definition userBookings_query :: "string \<Rightarrow> select_query" where
  "userBookings_query phone =
     \<lparr> from_table = ''bookings'', columns = ''*'',
       eq_filters = [(''user_phone'', phone)],
       order_by = Some (''timestamp'', False),
       limit_to = None \<rparr>"

definition fetchUserBookings_try :: "'st remote \<Rightarrow> string \<Rightarrow> 'st \<Rightarrow> FetchResult js \<times> 'st" where
  "fetchUserBookings_try supabase phone s =
     fetch_result (supabase (Select (userBookings_query phone)) s)"

definition fetchUserBookings :: "'st remote \<Rightarrow> string \<Rightarrow> 'st \<Rightarrow> FetchResult js \<times> 'st" where
  "fetchUserBookings supabase phone s =
     try_catch (fetchUserBookings_try supabase phone s)
       (\<lambda>e. \<lparr> bookings = [], error_f = Some (catch_message e) \<rparr>)"

text \<open>The parameter \<open>limit\<close> has the default 50: \<open>None\<close> is the call without argument.\<close>

definition allBookings_query :: "int \<Rightarrow> select_query" where
  "allBookings_query limit =
     \<lparr> from_table = ''bookings'', columns = ''*'',
       eq_filters = [],
       order_by = Some (''timestamp'', False),
       limit_to = Some limit \<rparr>"

definition fetchAllBookings_try :: "'st remote \<Rightarrow> int option \<Rightarrow> 'st \<Rightarrow> FetchResult js \<times> 'st" where
  "fetchAllBookings_try supabase limit_arg s =
     (let limit = (case limit_arg of None \<Rightarrow> 50 | Some n \<Rightarrow> n) in
      fetch_result (supabase (Select (allBookings_query limit)) s))"

definition fetchAllBookings :: "'st remote \<Rightarrow> int option \<Rightarrow> 'st \<Rightarrow> FetchResult js \<times> 'st" where
  "fetchAllBookings supabase limit_arg s =
     try_catch (fetchAllBookings_try supabase limit_arg s)
       (\<lambda>e. \<lparr> bookings = [], error_f = Some (catch_message e) \<rparr>)"

definition updateBookingStatus_try ::
  "'st remote \<Rightarrow> string \<Rightarrow> string \<Rightarrow> 'st \<Rightarrow> WriteResult js \<times> 'st" where
  "updateBookingStatus_try supabase bookingId new_status s =
     write_result
       (supabase (Update ''bookings'' [(''status'', new_status)] [(''id'', bookingId)]) s)"

definition updateBookingStatus ::
  "'st remote \<Rightarrow> string \<Rightarrow> string \<Rightarrow> 'st \<Rightarrow> WriteResult js \<times> 'st" where
  "updateBookingStatus supabase bookingId new_status s =
     try_catch (updateBookingStatus_try supabase bookingId new_status s)
       (\<lambda>e. \<lparr> success = False, error_w = Some (catch_message e) \<rparr>)"

text \<open>
  A client that appends every request it receives to a log and answers with a given
  function; it makes the requests of an operation observable.
\<close>

definition recording :: "(request \<Rightarrow> response js) \<Rightarrow> request list remote" where
  "recording answer req seen = (answer req, seen @ [req])"

section \<open>The operations on values whose types are not enforced\<close>

text \<open>
  Types are erased at run time. A caller can hand \<open>saveBooking\<close> a value that is not a
  \<open>Booking\<close> (the malformed input of the spec), and both fetch operations read the
  records of \<open>data\<close> as \<open>any\<close>. The statements inside the \<open>try\<close> blocks that read
  such values can raise before the request is sent or after the response has come. This
  section states the four operations again on such values, with these local faults.
\<close>

text \<open>
  Reading a property of \<open>null\<close> or \<open>undefined\<close> raises a \<open>TypeError\<close>. Its message is
  the engine's; the wording here is that of V8.
\<close>

definition type_error_message :: "string \<Rightarrow> string \<Rightarrow> string" where
  "type_error_message what prop =
     ''Cannot read properties of '' @ what @ '' (reading '' @ [CHR 0x27] @ prop @ [CHR 0x27] @ '')''"

definition read_property :: "string \<Rightarrow> 'a js_opt \<Rightarrow> 'a js" where
  "read_property prop x =
     (case x of
        Val v \<Rightarrow> Inr v
      | Null \<Rightarrow> Inl (ErrorObj (type_error_message ''null'' prop))
      | Undefined \<Rightarrow> Inl (ErrorObj (type_error_message ''undefined'' prop)))"

text \<open>
  What \<open>saveBooking\<close> can receive: \<open>undefined\<close>, \<open>null\<close>, or an object. In
  \<open>Val (d, f, b)\<close> the properties \<open>distance\<close> and \<open>fare\<close> of the object hold \<open>d\<close> and
  \<open>f\<close>, either of which may be missing, and its other properties are those of \<open>b\<close>.
\<close>

type_synonym booking_arg = "(rat js_opt \<times> rat js_opt \<times> Booking) js_opt"

text \<open>
  The object \<open>bookingData\<close> on such a value. The properties are read in the order of the
  object literal: \<open>booking.id\<close> first, which raises when \<open>booking\<close> is nullish; then
  \<open>booking.distance.toString()\<close> and \<open>booking.fare.toString()\<close>, each of which raises
  when its receiver is nullish.
\<close>

definition bookingData_untyped :: "booking_arg \<Rightarrow> Row js" where
  "bookingData_untyped arg =
     (case read_property ''id'' arg of
        Inl e \<Rightarrow> Inl e
      | Inr (d, f, b) \<Rightarrow>
          (case read_property ''toString'' d of
             Inl e \<Rightarrow> Inl e
           | Inr d' \<Rightarrow>
               (case read_property ''toString'' f of
                  Inl e \<Rightarrow> Inl e
                | Inr f' \<Rightarrow> Inr (mapToRow (b\<lparr> distance_b := d', fare_b := f' \<rparr>)))))"

text \<open>
  What a response can hold as \<open>data\<close>: \<open>null\<close> (\<open>None\<close>), an array whose elements are
  records or nullish, or a truthy value that is not an array.
\<close>

datatype data_value = Records "StoredRow js_opt list" | NotAnArray

record untyped_response =
  data_u :: "data_value option"
  error_u :: "PostgrestError option"

type_synonym 'st untyped_remote = "request \<Rightarrow> 'st \<Rightarrow> untyped_response js \<times> 'st"

text \<open>
  \<open>.map((record: any) => ({ id: record.id, ... }))\<close>: the records are mapped from the
  first on, and reading \<open>record.id\<close> of a nullish record raises.
\<close>

fun map_records :: "StoredRow js_opt list \<Rightarrow> Booking list js" where
  "map_records [] = Inr []"
| "map_records (x # xs) =
     (case read_property ''id'' x of
        Inl e \<Rightarrow> Inl e
      | Inr record \<Rightarrow>
          (case map_records xs of
             Inl e \<Rightarrow> Inl e
           | Inr bs \<Rightarrow> Inr (mapFromRow record # bs)))"

text \<open>\<open>(data || []).map(...)\<close>: a value without \<open>map\<close> raises a \<open>TypeError\<close> (V8's wording).\<close>

definition map_data :: "data_value option \<Rightarrow> Booking list js" where
  "map_data d =
     (case d of
        None \<Rightarrow> Inr []
      | Some NotAnArray \<Rightarrow> Inl (ErrorObj ''(data || []).map is not a function'')
      | Some (Records rs) \<Rightarrow> map_records rs)"

definition write_result_untyped :: "untyped_response js \<times> 'st \<Rightarrow> WriteResult js \<times> 'st" where
  "write_result_untyped answer =
     (case answer of
        (Inl e, s') \<Rightarrow> (Inl e, s')
      | (Inr resp, s') \<Rightarrow>
          (case error_u resp of
             Some err \<Rightarrow> (Inr \<lparr> success = False, error_w = Some (message err) \<rparr>, s')
           | None \<Rightarrow> (Inr \<lparr> success = True, error_w = None \<rparr>, s')))"

definition fetch_result_untyped :: "untyped_response js \<times> 'st \<Rightarrow> FetchResult js \<times> 'st" where
  "fetch_result_untyped answer =
     (case answer of
        (Inl e, s') \<Rightarrow> (Inl e, s')
      | (Inr resp, s') \<Rightarrow>
          (case error_u resp of
             Some err \<Rightarrow> (Inr \<lparr> bookings = [], error_f = Some (message err) \<rparr>, s')
           | None \<Rightarrow>
               (case map_data (data_u resp) of
                  Inl e \<Rightarrow> (Inl e, s')
                | Inr bs \<Rightarrow> (Inr \<lparr> bookings = bs, error_f = None \<rparr>, s'))))"

text \<open>
  The four operations. In \<open>saveBooking\<close> a fault of the construction leaves the \<open>try\<close>
  block before the client is called, so no request is sent and the remote state stays.
\<close>

definition saveBooking_untyped ::
  "'st untyped_remote \<Rightarrow> booking_arg \<Rightarrow> 'st \<Rightarrow> WriteResult js \<times> 'st" where
  "saveBooking_untyped supabase arg s =
     try_catch
       (case bookingData_untyped arg of
          Inl e \<Rightarrow> (Inl e, s)
        | Inr bookingData \<Rightarrow>
            write_result_untyped (supabase (Insert ''bookings'' [bookingData]) s))
       (\<lambda>e. \<lparr> success = False, error_w = Some (catch_message e) \<rparr>)"

definition fetchUserBookings_untyped ::
  "'st untyped_remote \<Rightarrow> string \<Rightarrow> 'st \<Rightarrow> FetchResult js \<times> 'st" where
  "fetchUserBookings_untyped supabase phone s =
     try_catch
       (fetch_result_untyped (supabase (Select (userBookings_query phone)) s))
       (\<lambda>e. \<lparr> bookings = [], error_f = Some (catch_message e) \<rparr>)"

definition fetchAllBookings_untyped ::
  "'st untyped_remote \<Rightarrow> int option \<Rightarrow> 'st \<Rightarrow> FetchResult js \<times> 'st" where
  "fetchAllBookings_untyped supabase limit_arg s =
     (let limit = (case limit_arg of None \<Rightarrow> 50 | Some n \<Rightarrow> n) in
      try_catch
        (fetch_result_untyped (supabase (Select (allBookings_query limit)) s))
        (\<lambda>e. \<lparr> bookings = [], error_f = Some (catch_message e) \<rparr>))"

definition updateBookingStatus_untyped ::
  "'st untyped_remote \<Rightarrow> string \<Rightarrow> string \<Rightarrow> 'st \<Rightarrow> WriteResult js \<times> 'st" where
  "updateBookingStatus_untyped supabase bookingId new_status s =
     try_catch
       (write_result_untyped
          (supabase (Update ''bookings'' [(''status'', new_status)] [(''id'', bookingId)]) s))
       (\<lambda>e. \<lparr> success = False, error_w = Some (catch_message e) \<rparr>)"

text \<open>
  Typed values among the untyped ones: a \<open>Booking\<close> as an argument, a typed response, and
  a typed client. On these the operations of this section are the operations of the
  previous one.
\<close>

definition typed_arg :: "Booking \<Rightarrow> booking_arg" where
  "typed_arg b = Val (Val (distance_b b), Val (fare_b b), b)"

definition typed_response :: "response \<Rightarrow> untyped_response" where
  "typed_response resp =
     \<lparr> data_u = (case data resp of None \<Rightarrow> None | Some rs \<Rightarrow> Some (Records (map Val rs))),
       error_u = error resp \<rparr>"

definition typed_client :: "'st remote \<Rightarrow> 'st untyped_remote" where
  "typed_client supabase req s =
     (case supabase req s of
        (Inl e, s') \<Rightarrow> (Inl e, s')
      | (Inr resp, s') \<Rightarrow> (Inr (typed_response resp), s'))"

section \<open>A reference store\<close>

text \<open>
  Modelled from the spec: the hosted table \<open>bookings\<close> and its answers, which are not part
  of the sources. The state is the list of stored rows. The model covers the requests the
  four operations issue on a store that is up: a select of all columns of \<open>bookings\<close> with
  equality filters on text columns, ordered by \<open>timestamp\<close> or not at all, without limit
  or with a positive one; and an update of text columns other than the primary key, by
  equality filters, answered without error however many rows match. Every other request
  (an insert, a limit that is not positive, another table or column) is answered by the
  parameter \<open>other\<close>: the spec leaves those to the store.
\<close>

type_synonym table = "StoredRow list"

text \<open>
  Modelled from the spec: the text columns of the table that are never null (section 6 of
  the spec), the ones an equality filter of the model may name.
\<close>

definition text_columns :: "string list" where
  "text_columns = [''id'', ''user_name'', ''user_phone'', ''taxi_tier'', ''status'']"

text \<open>Modelled from the spec: the value of a text column in a stored row.\<close>

definition text_column :: "string \<Rightarrow> StoredRow \<Rightarrow> string option" where
  "text_column c r =
     (if c = ''id'' then Some (id_r r)
      else if c = ''user_name'' then Some (user_name r)
      else if c = ''user_phone'' then Some (user_phone r)
      else if c = ''taxi_tier'' then Some (taxi_tier r)
      else if c = ''status'' then Some (status r)
      else None)"

text \<open>Modelled from the spec: a row passes the filters when each named column has the given value (exact match).\<close>

definition row_matches :: "(string \<times> string) list \<Rightarrow> StoredRow \<Rightarrow> bool" where
  "row_matches fs r = list_all (\<lambda>(c, v). text_column c r = Some v) fs"

text \<open>Modelled from the spec: the columns a patch of the model may set, the text columns but the primary key.\<close>

definition patchable :: "string list" where
  "patchable = [''user_name'', ''user_phone'', ''taxi_tier'', ''status'']"

text \<open>Modelled from the spec: a partial update sets the named column and no other.\<close>

definition set_text_column :: "string \<times> string \<Rightarrow> StoredRow \<Rightarrow> StoredRow" where
  "set_text_column cv r =
     (case cv of (c, v) \<Rightarrow>
        if c = ''user_name'' then r\<lparr> user_name := v \<rparr>
        else if c = ''user_phone'' then r\<lparr> user_phone := v \<rparr>
        else if c = ''taxi_tier'' then r\<lparr> taxi_tier := v \<rparr>
        else if c = ''status'' then r\<lparr> status := v \<rparr>
        else r)"

text \<open>Modelled from the spec: a patch sets its columns one after the other.\<close>

definition apply_patch :: "(string \<times> string) list \<Rightarrow> StoredRow \<Rightarrow> StoredRow" where
  "apply_patch patch r = fold set_text_column patch r"

text \<open>Modelled from the spec: the selects and the updates the model answers.\<close>

definition select_modelled :: "select_query \<Rightarrow> bool" where
  "select_modelled q =
     (from_table q = ''bookings'' \<and> columns q = ''*'' \<and>
      list_all (\<lambda>(c, v). c \<in> set text_columns) (eq_filters q) \<and>
      (case order_by q of None \<Rightarrow> True | Some (c, ascending) \<Rightarrow> c = ''timestamp'') \<and>
      (case limit_to q of None \<Rightarrow> True | Some n \<Rightarrow> 0 < n))"

definition update_modelled :: "string \<Rightarrow> (string \<times> string) list \<Rightarrow> (string \<times> string) list \<Rightarrow> bool" where
  "update_modelled t patch fs =
     (t = ''bookings'' \<and>
      list_all (\<lambda>(c, v). c \<in> set patchable) patch \<and>
      list_all (\<lambda>(c, v). c \<in> set text_columns) fs)"

text \<open>
  Modelled from the spec: the rows a select returns are those that pass every filter, in
  the order asked for (rows with equal timestamps stay in table order), cut to the limit.
\<close>

definition select_rows :: "table \<Rightarrow> select_query \<Rightarrow> StoredRow list" where
  "select_rows tbl q =
     (let matching = filter (row_matches (eq_filters q)) tbl;
          ordered = (case order_by q of
                       None \<Rightarrow> matching
                     | Some (c, ascending) \<Rightarrow>
                         if ascending then sort_key timestamp matching
                         else sort_key (\<lambda>r. - timestamp r) matching)
      in case limit_to q of
           None \<Rightarrow> ordered
         | Some n \<Rightarrow> take (nat n) ordered)"

text \<open>Modelled from the spec: an update patches the rows that pass the filters and no other row.\<close>

definition update_rows :: "table \<Rightarrow> (string \<times> string) list \<Rightarrow> (string \<times> string) list \<Rightarrow> table" where
  "update_rows tbl patch fs = map (\<lambda>r. if row_matches fs r then apply_patch patch r else r) tbl"

text \<open>
  Modelled from the spec: the store as a client. A select changes nothing; an update is
  answered without data and without error, also when no row passes the filters.
\<close>

definition store_exec :: "table remote \<Rightarrow> table remote" where
  "store_exec other req tbl =
     (case req of
        Select q \<Rightarrow>
          if select_modelled q
          then (Inr \<lparr> data = Some (select_rows tbl q), error = None \<rparr>, tbl)
          else other req tbl
      | Update t patch fs \<Rightarrow>
          if update_modelled t patch fs
          then (Inr \<lparr> data = None, error = None \<rparr>, update_rows tbl patch fs)
          else other req tbl
      | Insert t rs \<Rightarrow> other req tbl)"

section \<open>Sample data\<close>

definition sample_location :: Location where
  "sample_location = \<lparr> lat = 12, lng = 77, address = Some ''Airport'' \<rparr>"

text \<open>A booking whose taxi has arrived (\<open>eta\<close> is 0), and one with no taxi assigned yet.\<close>

definition arrived_booking :: Booking where
  "arrived_booking =
     \<lparr> id_b = ''BK1'', startLocation = sample_location, endLocation = sample_location,
       tier = ''economy'', distance_b = 5 / 2, fare_b = 120, status_b = ''assigned'',
       taxiId = Val ''T-7'', eta_b = Val 0, timestamp_b = 1000,
       userName = [], userPhone = ''555-0100'' \<rparr>"

definition fresh_booking :: Booking where
  "fresh_booking =
     \<lparr> id_b = ''BK2'', startLocation = sample_location, endLocation = sample_location,
       tier = ''premium'', distance_b = 8, fare_b = 400, status_b = ''pending'',
       taxiId = Undefined, eta_b = Undefined, timestamp_b = 2000,
       userName = ''Asha'', userPhone = ''555-0199'' \<rparr>"

definition sample_row :: "string \<Rightarrow> string \<Rightarrow> int \<Rightarrow> StoredRow" where
  "sample_row i phone t =
     \<lparr> id_r = i, user_name = ''Asha'', user_phone = phone,
       pickup_location = sample_location, drop_location = sample_location,
       taxi_tier = ''economy'', distance = 5 / 2, fare = 120, status = ''assigned'',
       taxi_id = Null, eta = Val 7, timestamp = t, created_at = 1 \<rparr>"

definition sample_table :: table where
  "sample_table =
     [sample_row ''BK1'' ''555-0100'' 10,
      sample_row ''BK2'' ''555-0199'' 30,
      sample_row ''BK3'' ''555-0100'' 20]"

text \<open>A client that gives one answer to every request and has no state of its own.\<close>

definition answering :: "response js \<Rightarrow> unit remote" where
  "answering a req s = (a, s)"

text \<open>A store that raises on every request outside the modelled ones.\<close>

definition unmodelled :: "table remote" where
  "unmodelled req tbl = (Inl NonError, tbl)"

text \<open>The same for responses whose data need not be typed.\<close>

definition answering_untyped :: "untyped_response js \<Rightarrow> unit untyped_remote" where
  "answering_untyped a req s = (a, s)"

section \<open>Basic facts\<close>

lemma or_null_idem: "or_null t (or_null t x) = or_null t x"
  by (simp add: or_null_def split: js_opt.splits)

lemma or_null_defined: "or_null t x \<noteq> Undefined"
  by (simp add: or_null_def split: js_opt.splits)

lemma or_empty_idem: "or_empty (or_empty s) = or_empty s"
  by (simp add: or_empty_def)

lemma snd_try_catch: "snd (try_catch body h) = snd body"
  by (simp add: try_catch_def split: prod.splits sum.splits)

lemma fst_try_catch: "fst (try_catch body h) = Inr (case fst body of Inl e \<Rightarrow> h e | Inr r \<Rightarrow> r)"
  by (simp add: try_catch_def split: prod.splits sum.splits)

lemma snd_write_result: "snd (write_result answer) = snd answer"
  by (simp add: write_result_def split: prod.splits sum.splits option.splits)

lemma snd_fetch_result: "snd (fetch_result answer) = snd answer"
  by (simp add: fetch_result_def split: prod.splits sum.splits option.splits)

lemma fst_write_result:
  "fst (write_result answer) =
     (case fst answer of
        Inl e \<Rightarrow> Inl e
      | Inr resp \<Rightarrow>
          (case error resp of
             Some err \<Rightarrow> Inr \<lparr> success = False, error_w = Some (message err) \<rparr>
           | None \<Rightarrow> Inr \<lparr> success = True, error_w = None \<rparr>))"
  by (simp add: write_result_def split: prod.splits sum.splits option.splits)

lemma fst_fetch_result:
  "fst (fetch_result answer) =
     (case fst answer of
        Inl e \<Rightarrow> Inl e
      | Inr resp \<Rightarrow>
          (case error resp of
             Some err \<Rightarrow> Inr \<lparr> bookings = [], error_f = Some (message err) \<rparr>
           | None \<Rightarrow>
               Inr \<lparr> bookings = map mapFromRow (case data resp of None \<Rightarrow> [] | Some rs \<Rightarrow> rs),
                     error_f = None \<rparr>))"
  by (simp add: fetch_result_def split: prod.splits sum.splits option.splits)

subsection \<open>What each operation returns, by the outcome of its one remote call\<close>

lemma saveBooking_outcome:
  "fst (saveBooking supabase booking s) =
     Inr (case fst (supabase (Insert ''bookings'' [mapToRow booking]) s) of
            Inl e \<Rightarrow> \<lparr> success = False, error_w = Some (catch_message e) \<rparr>
          | Inr resp \<Rightarrow>
              (case error resp of
                 Some err \<Rightarrow> \<lparr> success = False, error_w = Some (message err) \<rparr>
               | None \<Rightarrow> \<lparr> success = True, error_w = None \<rparr>))"
  by (simp add: saveBooking_def saveBooking_try_def fst_try_catch fst_write_result
      split: sum.splits option.splits)

lemma updateBookingStatus_outcome:
  "fst (updateBookingStatus supabase bookingId new_status s) =
     Inr (case fst (supabase (Update ''bookings'' [(''status'', new_status)]
                                [(''id'', bookingId)]) s) of
            Inl e \<Rightarrow> \<lparr> success = False, error_w = Some (catch_message e) \<rparr>
          | Inr resp \<Rightarrow>
              (case error resp of
                 Some err \<Rightarrow> \<lparr> success = False, error_w = Some (message err) \<rparr>
               | None \<Rightarrow> \<lparr> success = True, error_w = None \<rparr>))"
  by (simp add: updateBookingStatus_def updateBookingStatus_try_def fst_try_catch
      fst_write_result split: sum.splits option.splits)

lemma fetch_outcome:
  "fst (try_catch (fetch_result answer)
          (\<lambda>e. \<lparr> bookings = [], error_f = Some (catch_message e) \<rparr>)) =
     Inr (case fst answer of
            Inl e \<Rightarrow> \<lparr> bookings = [], error_f = Some (catch_message e) \<rparr>
          | Inr resp \<Rightarrow>
              (case error resp of
                 Some err \<Rightarrow> \<lparr> bookings = [], error_f = Some (message err) \<rparr>
               | None \<Rightarrow>
                   \<lparr> bookings = map mapFromRow (case data resp of None \<Rightarrow> [] | Some rs \<Rightarrow> rs),
                     error_f = None \<rparr>))"
  by (simp add: fst_try_catch fst_fetch_result split: sum.splits option.splits)

lemma fetchUserBookings_outcome:
  "fst (fetchUserBookings supabase phone s) =
     Inr (case fst (supabase (Select (userBookings_query phone)) s) of
            Inl e \<Rightarrow> \<lparr> bookings = [], error_f = Some (catch_message e) \<rparr>
          | Inr resp \<Rightarrow>
              (case error resp of
                 Some err \<Rightarrow> \<lparr> bookings = [], error_f = Some (message err) \<rparr>
               | None \<Rightarrow>
                   \<lparr> bookings = map mapFromRow (case data resp of None \<Rightarrow> [] | Some rs \<Rightarrow> rs),
                     error_f = None \<rparr>))"
  by (simp add: fetchUserBookings_def fetchUserBookings_try_def fetch_outcome)

lemma fetchAllBookings_outcome:
  "fst (fetchAllBookings supabase limit_arg s) =
     Inr (case fst (supabase (Select (allBookings_query
                                        (case limit_arg of None \<Rightarrow> 50 | Some n \<Rightarrow> n))) s) of
            Inl e \<Rightarrow> \<lparr> bookings = [], error_f = Some (catch_message e) \<rparr>
          | Inr resp \<Rightarrow>
              (case error resp of
                 Some err \<Rightarrow> \<lparr> bookings = [], error_f = Some (message err) \<rparr>
               | None \<Rightarrow>
                   \<lparr> bookings = map mapFromRow (case data resp of None \<Rightarrow> [] | Some rs \<Rightarrow> rs),
                     error_f = None \<rparr>))"
  by (simp add: fetchAllBookings_def fetchAllBookings_try_def fetch_outcome Let_def)

subsection \<open>The reference store on the requests of the module\<close>

lemma select_modelled_user: "select_modelled (userBookings_query phone)"
  by (simp add: select_modelled_def userBookings_query_def text_columns_def)

lemma select_modelled_all: "0 < n \<Longrightarrow> select_modelled (allBookings_query n)"
  by (simp add: select_modelled_def allBookings_query_def)

lemma update_modelled_status: "update_modelled ''bookings'' [(''status'', v)] [(''id'', i)]"
  by (simp add: update_modelled_def patchable_def text_columns_def)

lemma row_matches_phone: "row_matches [(''user_phone'', phone)] = (\<lambda>r. user_phone r = phone)"
  by (rule ext) (simp add: row_matches_def text_column_def)

lemma row_matches_id: "row_matches [(''id'', i)] = (\<lambda>r. id_r r = i)"
  by (rule ext) (simp add: row_matches_def text_column_def)

lemma row_matches_Nil: "row_matches [] = (\<lambda>r. True)"
  by (rule ext) (simp add: row_matches_def)

lemma apply_patch_status: "apply_patch [(''status'', v)] r = r\<lparr> status := v \<rparr>"
  by (simp add: apply_patch_def set_text_column_def)

lemma select_rows_user:
  "select_rows tbl (userBookings_query phone) =
     sort_key (\<lambda>r. - timestamp r) (filter (\<lambda>r. user_phone r = phone) tbl)"
  by (simp add: select_rows_def userBookings_query_def row_matches_phone)

lemma select_rows_all:
  "select_rows tbl (allBookings_query n) = take (nat n) (sort_key (\<lambda>r. - timestamp r) tbl)"
  by (simp add: select_rows_def allBookings_query_def row_matches_Nil)

lemma newest_first_sort:
  "sorted_wrt (\<lambda>a b. timestamp_b b \<le> timestamp_b a)
     (map mapFromRow (sort_key (\<lambda>r. - timestamp r) rs))"
proof -
  have "sorted (map (\<lambda>r. - timestamp r) (sort_key (\<lambda>r. - timestamp r) rs))"
    by (rule sorted_sort_key)
  then show ?thesis
    by (simp add: sorted_map sorted_wrt_map mapFromRow_def)
qed

lemma newest_first_split:
  fixes rs :: "StoredRow list"
  assumes "xs = sort_key (\<lambda>r. - timestamp r) rs"
  shows "\<forall>x\<in>set (take k xs). \<forall>y\<in>set (drop k xs). timestamp y \<le> timestamp x"
proof -
  have "sorted (map (\<lambda>r. - timestamp r) xs)"
    unfolding assms by (rule sorted_sort_key)
  then have "sorted_wrt (\<lambda>a b. timestamp b \<le> timestamp a) (take k xs @ drop k xs)"
    by (simp add: sorted_map)
  then show ?thesis
    unfolding sorted_wrt_append by blast
qed

subsection \<open>The operations on untyped values\<close>

lemma type_error_message_nonempty: "type_error_message what prop \<noteq> []"
  by (simp add: type_error_message_def)

lemma read_property_raises:
  "read_property prop x = Inl e \<Longrightarrow> catch_message e \<noteq> []"
  by (auto simp: read_property_def catch_message_def type_error_message_nonempty
      split: js_opt.splits)

lemma bookingData_untyped_raises:
  "bookingData_untyped arg = Inl e \<Longrightarrow> catch_message e \<noteq> []"
  by (auto simp: bookingData_untyped_def split: sum.splits prod.splits
      dest: read_property_raises)

lemma map_records_raises:
  "map_records xs = Inl e \<Longrightarrow> catch_message e \<noteq> []"
proof (induction xs)
  case Nil
  then show ?case by simp
next
  case (Cons x xs)
  then show ?case
    by (auto split: sum.splits dest: read_property_raises)
qed

lemma map_data_raises:
  "map_data d = Inl e \<Longrightarrow> catch_message e \<noteq> []"
  by (auto simp: map_data_def catch_message_def split: option.splits data_value.splits
      dest: map_records_raises)

lemma map_records_typed: "map_records (map Val rs) = Inr (map mapFromRow rs)"
  by (induction rs) (simp_all add: read_property_def)

lemma bookingData_typed: "bookingData_untyped (typed_arg b) = Inr (mapToRow b)"
  by (simp add: bookingData_untyped_def typed_arg_def read_property_def)

lemma write_result_typed:
  "write_result_untyped (typed_client supabase req s) = write_result (supabase req s)"
  by (simp add: write_result_untyped_def write_result_def typed_client_def typed_response_def
      split: prod.splits sum.splits option.splits)

lemma fetch_result_typed:
  "fetch_result_untyped (typed_client supabase req s) = fetch_result (supabase req s)"
  by (simp add: fetch_result_untyped_def fetch_result_def typed_client_def typed_response_def
      map_data_def map_records_typed split: prod.splits sum.splits option.splits)

lemma saveBooking_typed:
  "saveBooking_untyped (typed_client supabase) (typed_arg b) s = saveBooking supabase b s"
  by (simp add: saveBooking_untyped_def saveBooking_def saveBooking_try_def bookingData_typed
      write_result_typed)

lemma fetchUserBookings_typed:
  "fetchUserBookings_untyped (typed_client supabase) phone s = fetchUserBookings supabase phone s"
  by (simp add: fetchUserBookings_untyped_def fetchUserBookings_def fetchUserBookings_try_def
      fetch_result_typed)

lemma fetchAllBookings_typed:
  "fetchAllBookings_untyped (typed_client supabase) limit_arg s =
     fetchAllBookings supabase limit_arg s"
  by (simp add: fetchAllBookings_untyped_def fetchAllBookings_def fetchAllBookings_try_def
      fetch_result_typed Let_def)

lemma updateBookingStatus_typed:
  "updateBookingStatus_untyped (typed_client supabase) bookingId new_status s =
     updateBookingStatus supabase bookingId new_status s"
  by (simp add: updateBookingStatus_untyped_def updateBookingStatus_def
      updateBookingStatus_try_def write_result_typed)

lemma fst_write_result_untyped:
  "fst (write_result_untyped answer) =
     (case fst answer of
        Inl e \<Rightarrow> Inl e
      | Inr resp \<Rightarrow>
          (case error_u resp of
             Some err \<Rightarrow> Inr \<lparr> success = False, error_w = Some (message err) \<rparr>
           | None \<Rightarrow> Inr \<lparr> success = True, error_w = None \<rparr>))"
  by (simp add: write_result_untyped_def split: prod.splits sum.splits option.splits)

lemma fst_fetch_result_untyped:
  "fst (fetch_result_untyped answer) =
     (case fst answer of
        Inl e \<Rightarrow> Inl e
      | Inr resp \<Rightarrow>
          (case error_u resp of
             Some err \<Rightarrow> Inr \<lparr> bookings = [], error_f = Some (message err) \<rparr>
           | None \<Rightarrow>
               (case map_data (data_u resp) of
                  Inl e \<Rightarrow> Inl e
                | Inr bs \<Rightarrow> Inr \<lparr> bookings = bs, error_f = None \<rparr>)))"
  by (simp add: fetch_result_untyped_def split: prod.splits sum.splits option.splits)

lemma saveBooking_untyped_outcome:
  "fst (saveBooking_untyped supabase arg s) =
     Inr (case bookingData_untyped arg of
            Inl e \<Rightarrow> \<lparr> success = False, error_w = Some (catch_message e) \<rparr>
          | Inr row \<Rightarrow>
              (case fst (supabase (Insert ''bookings'' [row]) s) of
                 Inl e \<Rightarrow> \<lparr> success = False, error_w = Some (catch_message e) \<rparr>
               | Inr resp \<Rightarrow>
                   (case error_u resp of
                      Some err \<Rightarrow> \<lparr> success = False, error_w = Some (message err) \<rparr>
                    | None \<Rightarrow> \<lparr> success = True, error_w = None \<rparr>)))"
  by (simp add: saveBooking_untyped_def fst_try_catch fst_write_result_untyped
      split: sum.splits option.splits)

lemma updateBookingStatus_untyped_outcome:
  "fst (updateBookingStatus_untyped supabase bookingId new_status s) =
     Inr (case fst (supabase (Update ''bookings'' [(''status'', new_status)]
                                [(''id'', bookingId)]) s) of
            Inl e \<Rightarrow> \<lparr> success = False, error_w = Some (catch_message e) \<rparr>
          | Inr resp \<Rightarrow>
              (case error_u resp of
                 Some err \<Rightarrow> \<lparr> success = False, error_w = Some (message err) \<rparr>
               | None \<Rightarrow> \<lparr> success = True, error_w = None \<rparr>))"
  by (simp add: updateBookingStatus_untyped_def fst_try_catch fst_write_result_untyped
      split: sum.splits option.splits)

lemma fetch_untyped_outcome:
  "fst (try_catch (fetch_result_untyped answer)
          (\<lambda>e. \<lparr> bookings = [], error_f = Some (catch_message e) \<rparr>)) =
     Inr (case fst answer of
            Inl e \<Rightarrow> \<lparr> bookings = [], error_f = Some (catch_message e) \<rparr>
          | Inr resp \<Rightarrow>
              (case error_u resp of
                 Some err \<Rightarrow> \<lparr> bookings = [], error_f = Some (message err) \<rparr>
               | None \<Rightarrow>
                   (case map_data (data_u resp) of
                      Inl e \<Rightarrow> \<lparr> bookings = [], error_f = Some (catch_message e) \<rparr>
                    | Inr bs \<Rightarrow> \<lparr> bookings = bs, error_f = None \<rparr>)))"
  by (simp add: fst_try_catch fst_fetch_result_untyped split: sum.splits option.splits)

lemma fetchUserBookings_untyped_outcome:
  "fst (fetchUserBookings_untyped supabase phone s) =
     Inr (case fst (supabase (Select (userBookings_query phone)) s) of
            Inl e \<Rightarrow> \<lparr> bookings = [], error_f = Some (catch_message e) \<rparr>
          | Inr resp \<Rightarrow>
              (case error_u resp of
                 Some err \<Rightarrow> \<lparr> bookings = [], error_f = Some (message err) \<rparr>
               | None \<Rightarrow>
                   (case map_data (data_u resp) of
                      Inl e \<Rightarrow> \<lparr> bookings = [], error_f = Some (catch_message e) \<rparr>
                    | Inr bs \<Rightarrow> \<lparr> bookings = bs, error_f = None \<rparr>)))"
  by (simp add: fetchUserBookings_untyped_def fetch_untyped_outcome)

lemma fetchAllBookings_untyped_outcome:
  "fst (fetchAllBookings_untyped supabase limit_arg s) =
     Inr (case fst (supabase (Select (allBookings_query
                                        (case limit_arg of None \<Rightarrow> 50 | Some n \<Rightarrow> n))) s) of
            Inl e \<Rightarrow> \<lparr> bookings = [], error_f = Some (catch_message e) \<rparr>
          | Inr resp \<Rightarrow>
              (case error_u resp of
                 Some err \<Rightarrow> \<lparr> bookings = [], error_f = Some (message err) \<rparr>
               | None \<Rightarrow>
                   (case map_data (data_u resp) of
                      Inl e \<Rightarrow> \<lparr> bookings = [], error_f = Some (catch_message e) \<rparr>
                    | Inr bs \<Rightarrow> \<lparr> bookings = bs, error_f = None \<rparr>)))"
  by (simp add: fetchAllBookings_untyped_def fetch_untyped_outcome Let_def)

section \<open>The mappings\<close>

text \<open>
  Claim C1: mapping a booking to a row and back gives the booking again on every field,
  also for falsy values such as \<open>eta = 0\<close>. The code does not do this: the payload is
  built with \<open>booking.eta || null\<close>, so an \<open>eta\<close> of 0 is sent as \<open>null\<close> and comes
  back as \<open>null\<close>. The theorem evaluates the two mappings at a booking with \<open>eta = 0\<close>.
\<close>

theorem eta_zero_lost_in_round_trip:
  "eta_b arrived_booking = Val 0
   \<and> eta (mapToRow arrived_booking) = Null
   \<and> eta_b (mapFromRow (mapToRow arrived_booking)) = Null
   \<and> mapFromRow (mapToRow arrived_booking) \<noteq> arrived_booking"
proof -
  have sent: "eta (mapToRow arrived_booking) = Null"
    by (simp add: arrived_booking_def mapToRow_def or_null_def truthy_number_def)
  have returned: "eta_b (mapFromRow (mapToRow arrived_booking)) = eta (mapToRow arrived_booking)"
    by (simp add: mapFromRow_def)
  have before: "eta_b arrived_booking = Val 0"
    by (simp add: arrived_booking_def)
  from sent returned before have "eta_b (mapFromRow (mapToRow arrived_booking)) \<noteq> eta_b arrived_booking"
    by simp
  then have "mapFromRow (mapToRow arrived_booking) \<noteq> arrived_booking"
    by auto
  with sent returned before show ?thesis by simp
qed

text \<open>
  Apart from the two falsy values that \<open>||\<close> replaces, the round trip changes a booking
  only in that an unset \<open>taxiId\<close> or \<open>eta\<close> comes back as \<open>null\<close>.
\<close>

lemma round_trip_without_falsy:
  assumes "taxiId B \<noteq> Val []" and "eta_b B \<noteq> Val 0"
  shows "mapFromRow (mapToRow B) =
           B\<lparr> taxiId := (case taxiId B of Val v \<Rightarrow> Val v | Null \<Rightarrow> Null | Undefined \<Rightarrow> Null),
              eta_b := (case eta_b B of Val n \<Rightarrow> Val n | Null \<Rightarrow> Null | Undefined \<Rightarrow> Null) \<rparr>"
  using assms
  by (cases B)
    (simp add: mapFromRow_def mapToRow_def or_null_def or_empty_def truthy_string_def
      truthy_number_def parseFloat_toString_def split: js_opt.splits)

text \<open>
  Claim C3: for every booking \<open>B\<close>, mapping to a row, back to a booking and to a row again
  gives the row of the first mapping: \<open>mapToRow (mapFromRow (mapToRow B)) = mapToRow B\<close>.
\<close>

theorem mapToRow_stable: "mapToRow (mapFromRow (mapToRow B)) = mapToRow B"
  by (simp add: mapToRow_def mapFromRow_def or_null_idem or_empty_idem parseFloat_toString_def)

theorem mapToRow_stable_witness:
  "mapToRow (mapFromRow (mapToRow arrived_booking)) = mapToRow arrived_booking
   \<and> mapToRow (mapFromRow (mapToRow fresh_booking)) = mapToRow fresh_booking"
  using mapToRow_stable [of arrived_booking] mapToRow_stable [of fresh_booking] by simp

text \<open>
  Claim C4: \<open>saveBooking\<close> sends one insert of one row; in that row \<open>taxi_id\<close> and
  \<open>eta\<close> are never absent, and each is \<open>null\<close> when the booking leaves the
  corresponding field unset.
\<close>

theorem unset_fields_sent_as_null:
  "\<exists>row. snd (saveBooking (recording answer) booking seen) = seen @ [Insert ''bookings'' [row]]
     \<and> taxi_id row \<noteq> Undefined \<and> eta row \<noteq> Undefined
     \<and> (taxiId booking = Undefined \<longrightarrow> taxi_id row = Null)
     \<and> (eta_b booking = Undefined \<longrightarrow> eta row = Null)"
proof (intro exI conjI)
  show "snd (saveBooking (recording answer) booking seen) =
          seen @ [Insert ''bookings'' [mapToRow booking]]"
    by (simp add: saveBooking_def saveBooking_try_def snd_try_catch snd_write_result
        recording_def Let_def)
  show "taxi_id (mapToRow booking) \<noteq> Undefined" "eta (mapToRow booking) \<noteq> Undefined"
    by (simp_all add: mapToRow_def or_null_defined)
  show "taxiId booking = Undefined \<longrightarrow> taxi_id (mapToRow booking) = Null"
    "eta_b booking = Undefined \<longrightarrow> eta (mapToRow booking) = Null"
    by (simp_all add: mapToRow_def or_null_def)
qed

theorem unset_fields_sent_as_null_witness:
  "taxiId fresh_booking = Undefined \<and> eta_b fresh_booking = Undefined \<and>
   (\<exists>row. snd (saveBooking (recording (\<lambda>req. Inl NonError)) fresh_booking []) =
             [Insert ''bookings'' [row]]
      \<and> taxi_id row = Null \<and> eta row = Null)"
proof -
  have unset: "taxiId fresh_booking = Undefined" "eta_b fresh_booking = Undefined"
    by (simp_all add: fresh_booking_def)
  with unset_fields_sent_as_null [of "\<lambda>req. Inl NonError" fresh_booking "[]"]
  show ?thesis by auto
qed

section \<open>Errors\<close>

text \<open>
  Claim C2, as amended: for every input, malformed ones included, and every error raised
  either by the remote store or locally during request construction or response mapping,
  each of the four operations returns a normalized failure value (\<open>success\<close> false with
  an error string for the write operations, an empty \<open>bookings\<close> list with an error
  string for the fetch operations) and never propagates a raised exception to the caller.
  The error string is the message of the error as it is: the message of the store's error,
  the message of the raised \<open>Error\<close>, or \<open>Unknown error\<close> for a raised value that is
  not an \<open>Error\<close>. It is non-empty for the local faults, and for the others unless that
  message is empty. On typed values the operations are those of the typed section.
\<close>

theorem failures_returned_as_values:
  fixes supabase :: "'st untyped_remote" and typed :: "'st remote"
  shows
   "(\<exists>r. fst (saveBooking_untyped supabase arg s) = Inr r)
    \<and> (\<exists>r. fst (fetchUserBookings_untyped supabase phone s) = Inr r)
    \<and> (\<exists>r. fst (fetchAllBookings_untyped supabase limit_arg s) = Inr r)
    \<and> (\<exists>r. fst (updateBookingStatus_untyped supabase bookingId new_status s) = Inr r)
    \<and> (\<forall>e. bookingData_untyped arg = Inl e \<longrightarrow>
          fst (saveBooking_untyped supabase arg s) =
            Inr \<lparr> success = False, error_w = Some (catch_message e) \<rparr>
          \<and> catch_message e \<noteq> [])
    \<and> (\<forall>resp e. fst (supabase (Select (userBookings_query phone)) s) = Inr resp
             \<and> error_u resp = None \<and> map_data (data_u resp) = Inl e \<longrightarrow>
          fst (fetchUserBookings_untyped supabase phone s) =
            Inr \<lparr> bookings = [], error_f = Some (catch_message e) \<rparr>
          \<and> catch_message e \<noteq> [])
    \<and> (\<forall>resp e. fst (supabase (Select (allBookings_query
                 (case limit_arg of None \<Rightarrow> 50 | Some n \<Rightarrow> n))) s) = Inr resp
             \<and> error_u resp = None \<and> map_data (data_u resp) = Inl e \<longrightarrow>
          fst (fetchAllBookings_untyped supabase limit_arg s) =
            Inr \<lparr> bookings = [], error_f = Some (catch_message e) \<rparr>
          \<and> catch_message e \<noteq> [])
    \<and> (\<forall>row e. bookingData_untyped arg = Inr row
             \<and> fst (supabase (Insert ''bookings'' [row]) s) = Inl e \<longrightarrow>
          fst (saveBooking_untyped supabase arg s) =
            Inr \<lparr> success = False, error_w = Some (catch_message e) \<rparr>)
    \<and> (\<forall>e. fst (supabase (Select (userBookings_query phone)) s) = Inl e \<longrightarrow>
          fst (fetchUserBookings_untyped supabase phone s) =
            Inr \<lparr> bookings = [], error_f = Some (catch_message e) \<rparr>)
    \<and> (\<forall>e. fst (supabase (Select (allBookings_query
                 (case limit_arg of None \<Rightarrow> 50 | Some n \<Rightarrow> n))) s) = Inl e \<longrightarrow>
          fst (fetchAllBookings_untyped supabase limit_arg s) =
            Inr \<lparr> bookings = [], error_f = Some (catch_message e) \<rparr>)
    \<and> (\<forall>e. fst (supabase (Update ''bookings'' [(''status'', new_status)]
                 [(''id'', bookingId)]) s) = Inl e \<longrightarrow>
          fst (updateBookingStatus_untyped supabase bookingId new_status s) =
            Inr \<lparr> success = False, error_w = Some (catch_message e) \<rparr>)
    \<and> (\<forall>row resp err. bookingData_untyped arg = Inr row
             \<and> fst (supabase (Insert ''bookings'' [row]) s) = Inr resp
             \<and> error_u resp = Some err \<longrightarrow>
          fst (saveBooking_untyped supabase arg s) =
            Inr \<lparr> success = False, error_w = Some (message err) \<rparr>)
    \<and> (\<forall>resp err. fst (supabase (Select (userBookings_query phone)) s) = Inr resp
             \<and> error_u resp = Some err \<longrightarrow>
          fst (fetchUserBookings_untyped supabase phone s) =
            Inr \<lparr> bookings = [], error_f = Some (message err) \<rparr>)
    \<and> (\<forall>resp err. fst (supabase (Select (allBookings_query
                 (case limit_arg of None \<Rightarrow> 50 | Some n \<Rightarrow> n))) s) = Inr resp
             \<and> error_u resp = Some err \<longrightarrow>
          fst (fetchAllBookings_untyped supabase limit_arg s) =
            Inr \<lparr> bookings = [], error_f = Some (message err) \<rparr>)
    \<and> (\<forall>resp err. fst (supabase (Update ''bookings'' [(''status'', new_status)]
                 [(''id'', bookingId)]) s) = Inr resp
             \<and> error_u resp = Some err \<longrightarrow>
          fst (updateBookingStatus_untyped supabase bookingId new_status s) =
            Inr \<lparr> success = False, error_w = Some (message err) \<rparr>)
    \<and> catch_message NonError = ''Unknown error''
    \<and> (\<forall>m. catch_message (ErrorObj m) = m)
    \<and> saveBooking_untyped (typed_client typed) (typed_arg booking) s =
        saveBooking typed booking s
    \<and> fetchUserBookings_untyped (typed_client typed) phone s =
        fetchUserBookings typed phone s
    \<and> fetchAllBookings_untyped (typed_client typed) limit_arg s =
        fetchAllBookings typed limit_arg s
    \<and> updateBookingStatus_untyped (typed_client typed) bookingId new_status s =
        updateBookingStatus typed bookingId new_status s"
proof -
  note outcomes = saveBooking_untyped_outcome fetchUserBookings_untyped_outcome
    fetchAllBookings_untyped_outcome updateBookingStatus_untyped_outcome
  have returns:
    "\<exists>r. fst (saveBooking_untyped supabase arg s) = Inr r"
    "\<exists>r. fst (fetchUserBookings_untyped supabase phone s) = Inr r"
    "\<exists>r. fst (fetchAllBookings_untyped supabase limit_arg s) = Inr r"
    "\<exists>r. fst (updateBookingStatus_untyped supabase bookingId new_status s) = Inr r"
    by (simp_all only: outcomes) blast+
  have construction:
    "\<forall>e. bookingData_untyped arg = Inl e \<longrightarrow>
       fst (saveBooking_untyped supabase arg s) =
         Inr \<lparr> success = False, error_w = Some (catch_message e) \<rparr>
       \<and> catch_message e \<noteq> []"
    by (simp add: outcomes bookingData_untyped_raises)
  have mapping:
    "\<forall>resp e. fst (supabase (Select (userBookings_query phone)) s) = Inr resp
          \<and> error_u resp = None \<and> map_data (data_u resp) = Inl e \<longrightarrow>
       fst (fetchUserBookings_untyped supabase phone s) =
         Inr \<lparr> bookings = [], error_f = Some (catch_message e) \<rparr>
       \<and> catch_message e \<noteq> []"
    "\<forall>resp e. fst (supabase (Select (allBookings_query
              (case limit_arg of None \<Rightarrow> 50 | Some n \<Rightarrow> n))) s) = Inr resp
          \<and> error_u resp = None \<and> map_data (data_u resp) = Inl e \<longrightarrow>
       fst (fetchAllBookings_untyped supabase limit_arg s) =
         Inr \<lparr> bookings = [], error_f = Some (catch_message e) \<rparr>
       \<and> catch_message e \<noteq> []"
    by (auto simp: outcomes dest: map_data_raises)
  have raised:
    "\<forall>row e. bookingData_untyped arg = Inr row
          \<and> fst (supabase (Insert ''bookings'' [row]) s) = Inl e \<longrightarrow>
       fst (saveBooking_untyped supabase arg s) =
         Inr \<lparr> success = False, error_w = Some (catch_message e) \<rparr>"
    "\<forall>e. fst (supabase (Select (userBookings_query phone)) s) = Inl e \<longrightarrow>
       fst (fetchUserBookings_untyped supabase phone s) =
         Inr \<lparr> bookings = [], error_f = Some (catch_message e) \<rparr>"
    "\<forall>e. fst (supabase (Select (allBookings_query
              (case limit_arg of None \<Rightarrow> 50 | Some n \<Rightarrow> n))) s) = Inl e \<longrightarrow>
       fst (fetchAllBookings_untyped supabase limit_arg s) =
         Inr \<lparr> bookings = [], error_f = Some (catch_message e) \<rparr>"
    "\<forall>e. fst (supabase (Update ''bookings'' [(''status'', new_status)]
              [(''id'', bookingId)]) s) = Inl e \<longrightarrow>
       fst (updateBookingStatus_untyped supabase bookingId new_status s) =
         Inr \<lparr> success = False, error_w = Some (catch_message e) \<rparr>"
    by (simp_all add: outcomes)
  have reported:
    "\<forall>row resp err. bookingData_untyped arg = Inr row
          \<and> fst (supabase (Insert ''bookings'' [row]) s) = Inr resp
          \<and> error_u resp = Some err \<longrightarrow>
       fst (saveBooking_untyped supabase arg s) =
         Inr \<lparr> success = False, error_w = Some (message err) \<rparr>"
    "\<forall>resp err. fst (supabase (Select (userBookings_query phone)) s) = Inr resp
          \<and> error_u resp = Some err \<longrightarrow>
       fst (fetchUserBookings_untyped supabase phone s) =
         Inr \<lparr> bookings = [], error_f = Some (message err) \<rparr>"
    "\<forall>resp err. fst (supabase (Select (allBookings_query
              (case limit_arg of None \<Rightarrow> 50 | Some n \<Rightarrow> n))) s) = Inr resp
          \<and> error_u resp = Some err \<longrightarrow>
       fst (fetchAllBookings_untyped supabase limit_arg s) =
         Inr \<lparr> bookings = [], error_f = Some (message err) \<rparr>"
    "\<forall>resp err. fst (supabase (Update ''bookings'' [(''status'', new_status)]
              [(''id'', bookingId)]) s) = Inr resp
          \<and> error_u resp = Some err \<longrightarrow>
       fst (updateBookingStatus_untyped supabase bookingId new_status s) =
         Inr \<lparr> success = False, error_w = Some (message err) \<rparr>"
    by (simp_all add: outcomes)
  have messages: "catch_message NonError = ''Unknown error''" "\<forall>m. catch_message (ErrorObj m) = m"
    by (simp_all add: catch_message_def)
  note typed_values = saveBooking_typed [of typed booking s] fetchUserBookings_typed [of typed phone s]
    fetchAllBookings_typed [of typed limit_arg s]
    updateBookingStatus_typed [of typed bookingId new_status s]
  from returns construction mapping raised reported messages typed_values show ?thesis
    by (intro conjI)
qed

text \<open>
  The witness: a booking without \<open>distance\<close> on a store that is up, a response whose
  second record is \<open>null\<close>, data that is not an array, a store error on an update, and
  a raised value that is not an \<open>Error\<close>.
\<close>

theorem failures_returned_as_values_witness:
  "fst (saveBooking_untyped (answering_untyped (Inr \<lparr> data_u = None, error_u = None \<rparr>))
          (Val (Undefined, Val 120, arrived_booking)) ()) =
     Inr \<lparr> success = False,
           error_w = Some (type_error_message ''undefined'' ''toString'') \<rparr>
   \<and> type_error_message ''undefined'' ''toString'' \<noteq> []
   \<and> fst (fetchUserBookings_untyped
            (answering_untyped (Inr \<lparr> data_u = Some (Records
                 [Val (sample_row ''BK1'' ''555-0100'' 10), Null]), error_u = None \<rparr>))
            ''555-0100'' ()) =
     Inr \<lparr> bookings = [], error_f = Some (type_error_message ''null'' ''id'') \<rparr>
   \<and> fst (fetchAllBookings_untyped
            (answering_untyped (Inr \<lparr> data_u = Some NotAnArray, error_u = None \<rparr>))
            None ()) =
     Inr \<lparr> bookings = [], error_f = Some ''(data || []).map is not a function'' \<rparr>
   \<and> fst (updateBookingStatus_untyped
            (answering_untyped (Inr \<lparr> data_u = None,
                 error_u = Some \<lparr> message = ''permission denied'' \<rparr> \<rparr>))
            ''BK1'' ''completed'' ()) =
     Inr \<lparr> success = False, error_w = Some ''permission denied'' \<rparr>
   \<and> fst (saveBooking_untyped (answering_untyped (Inl NonError)) (typed_arg arrived_booking) ()) =
     Inr \<lparr> success = False, error_w = Some ''Unknown error'' \<rparr>"
proof -
  let ?up = "answering_untyped (Inr \<lparr> data_u = None, error_u = None \<rparr>)"
  let ?null_record = "answering_untyped (Inr \<lparr> data_u = Some (Records
      [Val (sample_row ''BK1'' ''555-0100'' 10), Null]), error_u = None \<rparr>)"
  let ?no_array = "answering_untyped (Inr \<lparr> data_u = Some NotAnArray, error_u = None \<rparr>)"
  let ?denied = "answering_untyped (Inr \<lparr> data_u = None,
      error_u = Some \<lparr> message = ''permission denied'' \<rparr> \<rparr>)"
  let ?raising = "answering_untyped (Inl NonError)"
  have no_distance:
    "bookingData_untyped (Val (Undefined, Val 120, arrived_booking)) =
       Inl (ErrorObj (type_error_message ''undefined'' ''toString''))"
    by (simp add: bookingData_untyped_def read_property_def)
  have null_record:
    "map_data (Some (Records [Val (sample_row ''BK1'' ''555-0100'' 10), Null])) =
       Inl (ErrorObj (type_error_message ''null'' ''id''))"
    by (simp add: map_data_def read_property_def)
  have no_array:
    "map_data (Some NotAnArray) = Inl (ErrorObj ''(data || []).map is not a function'')"
    by (simp add: map_data_def)
  have built: "bookingData_untyped (typed_arg arrived_booking) = Inr (mapToRow arrived_booking)"
    by (rule bookingData_typed)
  from
    failures_returned_as_values
      [where supabase = ?up and arg = "Val (Undefined, Val 120, arrived_booking)" and s = "()"]
    failures_returned_as_values
      [where supabase = ?null_record and phone = "''555-0100''" and s = "()"]
    failures_returned_as_values
      [where supabase = ?no_array and limit_arg = None and s = "()"]
    failures_returned_as_values
      [where supabase = ?denied and bookingId = "''BK1''" and new_status = "''completed''"
         and s = "()"]
    failures_returned_as_values
      [where supabase = ?raising and arg = "typed_arg arrived_booking" and s = "()"]
    no_distance null_record no_array built
  show ?thesis
    by (simp add: answering_untyped_def catch_message_def)
qed

text \<open>
  Claim C2 as stated asks for a non-empty error message. A store error whose message is
  empty, and a raised \<open>Error\<close> whose message is empty, give a failure whose error string
  is empty.
\<close>

theorem empty_message_passed_on:
  "fst (saveBooking (answering (Inr \<lparr> data = None, error = Some \<lparr> message = [] \<rparr> \<rparr>))
          arrived_booking ()) =
     Inr \<lparr> success = False, error_w = Some [] \<rparr>
   \<and> fst (fetchUserBookings (answering (Inl (ErrorObj []))) ''555-0100'' ()) =
     Inr \<lparr> bookings = [], error_f = Some [] \<rparr>"
  by (simp add: saveBooking_outcome fetchUserBookings_outcome answering_def catch_message_def)

text \<open>
  Claim C10: when the response of the store has neither an error nor data, both fetch
  operations return an empty list of bookings and no error.
\<close>

theorem null_data_gives_empty_list:
  assumes "error resp = None" and "data resp = None"
  shows "(fst (supabase (Select (userBookings_query phone)) s) = Inr resp \<longrightarrow>
            fst (fetchUserBookings supabase phone s) = Inr \<lparr> bookings = [], error_f = None \<rparr>)
       \<and> (fst (supabase (Select (allBookings_query
                   (case limit_arg of None \<Rightarrow> 50 | Some n \<Rightarrow> n))) s) = Inr resp \<longrightarrow>
            fst (fetchAllBookings supabase limit_arg s) = Inr \<lparr> bookings = [], error_f = None \<rparr>)"
  using assms by (simp add: fetchUserBookings_outcome fetchAllBookings_outcome)

theorem null_data_gives_empty_list_witness:
  "fst (fetchUserBookings (answering (Inr \<lparr> data = None, error = None \<rparr>)) ''555-0100'' ()) =
     Inr \<lparr> bookings = [], error_f = None \<rparr>
   \<and> fst (fetchAllBookings (answering (Inr \<lparr> data = None, error = None \<rparr>)) (Some 3) ()) =
     Inr \<lparr> bookings = [], error_f = None \<rparr>"
proof -
  let ?resp = "\<lparr> data = None, error = None \<rparr>"
  have "error ?resp = None" and "data ?resp = None"
    by simp_all
  from null_data_gives_empty_list [OF this, of "answering (Inr ?resp)" "''555-0100''" "()" "Some 3"]
  show ?thesis
    by (simp add: answering_def)
qed

section \<open>Status updates\<close>

text \<open>
  Claim C7: \<open>updateBookingStatus\<close> reports success whenever the response of the remote
  call carries no error; it never looks at how many rows matched, so an update that
  matches no row is reported as success too.
\<close>

theorem update_success_without_error:
  assumes "fst (supabase (Update ''bookings'' [(''status'', new_status)]
                   [(''id'', bookingId)]) s) = Inr resp"
    and "error resp = None"
  shows "fst (updateBookingStatus supabase bookingId new_status s) =
           Inr \<lparr> success = True, error_w = None \<rparr>"
  using assms by (simp add: updateBookingStatus_outcome)

text \<open>The witness is an update for an id that no row of the table has.\<close>

theorem update_success_without_error_witness:
  "list_all (\<lambda>r. id_r r \<noteq> ''BK404'') sample_table
   \<and> fst (updateBookingStatus (store_exec unmodelled) ''BK404'' ''completed'' sample_table) =
       Inr \<lparr> success = True, error_w = None \<rparr>"
proof -
  let ?resp = "\<lparr> data = None, error = None \<rparr>"
  have answered: "fst (store_exec unmodelled
      (Update ''bookings'' [(''status'', ''completed'')] [(''id'', ''BK404'')]) sample_table) = Inr ?resp"
    by (simp add: store_exec_def update_modelled_status)
  have no_error: "error ?resp = None"
    by simp
  have "list_all (\<lambda>r. id_r r \<noteq> ''BK404'') sample_table"
    by (simp add: sample_table_def sample_row_def)
  with update_success_without_error
         [where supabase = "store_exec unmodelled" and s = sample_table, OF answered no_error]
  show ?thesis
    by simp
qed

text \<open>
  Claim C8: on the reference store, \<open>updateBookingStatus\<close> replaces the status of every
  row whose id is \<open>bookingId\<close> and leaves its other fields, and all other rows, as they
  were.
\<close>

theorem update_changes_status_only:
  "updateBookingStatus (store_exec other) bookingId new_status tbl =
     (Inr \<lparr> success = True, error_w = None \<rparr>,
      map (\<lambda>r. if id_r r = bookingId then r\<lparr> status := new_status \<rparr> else r) tbl)"
  by (simp add: updateBookingStatus_def updateBookingStatus_try_def store_exec_def
      update_modelled_status update_rows_def row_matches_id apply_patch_status
      write_result_def try_catch_def)

theorem update_changes_status_only_witness:
  "snd (updateBookingStatus (store_exec unmodelled) ''BK3'' ''completed'' sample_table) =
     [sample_row ''BK1'' ''555-0100'' 10,
      sample_row ''BK2'' ''555-0199'' 30,
      (sample_row ''BK3'' ''555-0100'' 20)\<lparr> status := ''completed'' \<rparr>]"
  using update_changes_status_only [of unmodelled "''BK3''" "''completed''" sample_table]
  by (simp add: sample_table_def sample_row_def)

section \<open>Queries\<close>

text \<open>
  Claim C9: \<open>fetchAllBookings\<close> issues one select, and the limit of that select is the
  argument as given, whatever its sign.
\<close>

theorem limit_passed_verbatim:
  "snd (fetchAllBookings (recording answer) (Some n) seen) =
     seen @ [Select \<lparr> from_table = ''bookings'', columns = ''*'', eq_filters = [],
                       order_by = Some (''timestamp'', False), limit_to = Some n \<rparr>]"
  by (simp add: fetchAllBookings_def fetchAllBookings_try_def snd_try_catch snd_fetch_result
      recording_def allBookings_query_def)

theorem limit_passed_verbatim_witness:
  "snd (fetchAllBookings (recording (\<lambda>req. Inl NonError)) (Some (- 3)) []) =
     [Select \<lparr> from_table = ''bookings'', columns = ''*'', eq_filters = [],
                order_by = Some (''timestamp'', False), limit_to = Some (- 3) \<rparr>]
   \<and> snd (fetchAllBookings (recording (\<lambda>req. Inl NonError)) (Some 0) []) =
     [Select \<lparr> from_table = ''bookings'', columns = ''*'', eq_filters = [],
                order_by = Some (''timestamp'', False), limit_to = Some 0 \<rparr>]"
  using limit_passed_verbatim [of "\<lambda>req. Inl NonError" "- 3" "[]"]
    limit_passed_verbatim [of "\<lambda>req. Inl NonError" 0 "[]"]
  by simp

text \<open>
  Claim C5: on the reference store, \<open>fetchUserBookings p\<close> returns the bookings mapped
  from exactly the rows whose \<open>user_phone\<close> is \<open>p\<close>, each as often as the table holds
  it and none left out, most recent first; the store is not changed.
\<close>

theorem user_bookings_exact_and_ordered:
  "\<exists>bs. fetchUserBookings (store_exec other) phone tbl =
          (Inr \<lparr> bookings = bs, error_f = None \<rparr>, tbl)
     \<and> mset bs = image_mset mapFromRow (filter_mset (\<lambda>r. user_phone r = phone) (mset tbl))
     \<and> sorted_wrt (\<lambda>a b. timestamp_b b \<le> timestamp_b a) bs"
proof -
  let ?rs = "sort_key (\<lambda>r. - timestamp r) (filter (\<lambda>r. user_phone r = phone) tbl)"
  have "fetchUserBookings (store_exec other) phone tbl =
          (Inr \<lparr> bookings = map mapFromRow ?rs, error_f = None \<rparr>, tbl)"
    by (simp add: fetchUserBookings_def fetchUserBookings_try_def store_exec_def
        select_modelled_user select_rows_user fetch_result_def try_catch_def)
  moreover have "mset (map mapFromRow ?rs) =
      image_mset mapFromRow (filter_mset (\<lambda>r. user_phone r = phone) (mset tbl))"
    by simp
  moreover have "sorted_wrt (\<lambda>a b. timestamp_b b \<le> timestamp_b a) (map mapFromRow ?rs)"
    by (rule newest_first_sort)
  ultimately show ?thesis by blast
qed

theorem user_bookings_exact_and_ordered_witness:
  "\<exists>bs. fetchUserBookings (store_exec unmodelled) ''555-0100'' sample_table =
          (Inr \<lparr> bookings = bs, error_f = None \<rparr>, sample_table)
     \<and> mset bs = {# mapFromRow (sample_row ''BK1'' ''555-0100'' 10),
                     mapFromRow (sample_row ''BK3'' ''555-0100'' 20) #}
     \<and> sorted_wrt (\<lambda>a b. timestamp_b b \<le> timestamp_b a) bs"
  using user_bookings_exact_and_ordered [of unmodelled "''555-0100''" sample_table]
  by (simp add: sample_table_def sample_row_def)

text \<open>
  Claim C6: on the reference store and for a positive limit \<open>n\<close>, \<open>fetchAllBookings n\<close>
  returns at most \<open>n\<close> bookings (all of them when the table has fewer than \<open>n\<close> rows),
  mapped from rows that are at least as recent as every row left out, most recent first.
\<close>

theorem recent_bookings_limited:
  assumes "0 < n"
  shows "\<exists>kept dropped.
     fetchAllBookings (store_exec other) (Some n) tbl =
       (Inr \<lparr> bookings = map mapFromRow kept, error_f = None \<rparr>, tbl)
     \<and> mset tbl = mset kept + mset dropped
     \<and> length kept = min (nat n) (length tbl)
     \<and> (\<forall>x\<in>set kept. \<forall>y\<in>set dropped. timestamp y \<le> timestamp x)
     \<and> sorted_wrt (\<lambda>a b. timestamp_b b \<le> timestamp_b a) (map mapFromRow kept)"
proof -
  define xs where "xs = sort_key (\<lambda>r. - timestamp r) tbl"
  let ?kept = "take (nat n) xs" and ?dropped = "drop (nat n) xs"
  have "fetchAllBookings (store_exec other) (Some n) tbl =
          (Inr \<lparr> bookings = map mapFromRow ?kept, error_f = None \<rparr>, tbl)"
    using assms
    by (simp add: fetchAllBookings_def fetchAllBookings_try_def store_exec_def
        select_modelled_all select_rows_all fetch_result_def try_catch_def xs_def)
  moreover have "mset tbl = mset ?kept + mset ?dropped"
  proof -
    have "mset (?kept @ ?dropped) = mset xs"
      by (simp only: append_take_drop_id)
    then have "mset ?kept + mset ?dropped = mset xs"
      by (simp only: mset_append)
    also have "\<dots> = mset tbl"
      by (simp add: xs_def)
    finally show ?thesis by simp
  qed
  moreover have "length ?kept = min (nat n) (length tbl)"
    by (simp add: xs_def min.commute)
  moreover have "\<forall>x\<in>set ?kept. \<forall>y\<in>set ?dropped. timestamp y \<le> timestamp x"
    using xs_def by (rule newest_first_split)
  moreover have "sorted_wrt (\<lambda>a b. timestamp_b b \<le> timestamp_b a) (map mapFromRow ?kept)"
  proof -
    have "sorted_wrt (\<lambda>a b. timestamp_b b \<le> timestamp_b a) (map mapFromRow xs)"
      unfolding xs_def by (rule newest_first_sort)
    then have "sorted_wrt (\<lambda>a b. timestamp_b b \<le> timestamp_b a)
                 (take (nat n) (map mapFromRow xs))"
      by (rule sorted_wrt_take)
    then show ?thesis by (simp add: take_map)
  qed
  ultimately show ?thesis by blast
qed

theorem recent_bookings_limited_witness:
  "(0::int) < 2 \<and>
   (\<exists>kept dropped.
     fetchAllBookings (store_exec unmodelled) (Some 2) sample_table =
       (Inr \<lparr> bookings = map mapFromRow kept, error_f = None \<rparr>, sample_table)
     \<and> mset sample_table = mset kept + mset dropped
     \<and> length kept = 2
     \<and> (\<forall>x\<in>set kept. \<forall>y\<in>set dropped. timestamp y \<le> timestamp x))"
proof -
  have positive: "(0::int) < 2"
    by simp
  have "length sample_table = 3"
    by (simp add: sample_table_def)
  with recent_bookings_limited [OF positive, of unmodelled sample_table] positive
  show ?thesis
    by auto
qed

end
